theory Spec2Isabelle
  imports Complex_Main "HOL-Library.Multiset"
begin

section \<open>Data model of \<^verbatim>\<open>backend/main.py\<close>\<close>

text \<open>
  The backend keeps its durable state in tables of an SQL store and a handful of
  in-process globals (read caches, the refresh guard). Every table is modelled as the
  list of its rows (SQL tables are bags; a join or an \<^verbatim>\<open>INSERT ... SELECT\<close> is a list
  comprehension over them). Field names follow the column names of the SQL text, prefixed
  with the alias the source gives the table (\<^verbatim>\<open>st\<close>, \<^verbatim>\<open>fc\<close>, \<^verbatim>\<open>n\<close>, \<^verbatim>\<open>f\<close>, \<^verbatim>\<open>d\<close>,
  \<^verbatim>\<open>p\<close>, \<^verbatim>\<open>m\<close>). Timestamps are seconds on an integer axis, so that
  \<^verbatim>\<open>DATEADD(second, k, t)\<close> is \<open>t + k\<close>. Sensor values are only ever copied.
\<close>

record reading =
  engine_temp :: real
  trans_oil_pressure :: real
  battery_voltage :: real

text \<open>\<^verbatim>\<open>STREAM_STATE\<close>: the one row named \<^verbatim>\<open>STREAM_NAME\<close>, or no row.\<close>

record stream_state_row =
  st_start_ts :: int
  st_step_seconds :: int
  st_next_epoch :: int

text \<open>
  \<^verbatim>\<open>FAILURE_CONFIG\<close>. The two epoch columns are nullable, and the source reads them
  through \<^verbatim>\<open>COALESCE(..., 0)\<close> or a comparison that a NULL fails.
\<close>

record failure_config_row =
  fc_entity_id :: string
  fc_enabled :: bool
  fc_failure_type :: string
  fc_failure_next_epoch :: "int option"
  fc_effective_from_epoch :: "int option"

record telemetry_row =
  d_Timestamp :: int
  d_entity_id :: string
  d_sensors :: reading

record normal_seed_row =
  n_entity_id :: string
  n_epoch :: int
  n_sensors :: reading

record failure_seed_row =
  f_epoch :: int
  f_sensors :: reading

text \<open>
  \<^verbatim>\<open>PREDICTION_CACHE\<close> and the rows of the upstream view
  \<^verbatim>\<open>ENHANCED_PREDICTIVE_VIEW_HYBRID_TTF\<close> (whose \<open>p_LAST_UPDATED\<close> is not read).
\<close>

record prediction_row =
  p_ENTITY_ID :: string
  p_PREDICTION_TIMESTAMP :: int
  p_PREDICTED_FAILURE_TYPE :: string
  p_PREDICTED_HOURS_TO_FAILURE :: real
  p_TTF_MODEL_USED :: string
  p_CURRENT :: reading
  p_LAST_UPDATED :: int

record marker_row =
  m_ENTITY_ID :: string
  m_FIRST_FAILURE_TIME :: int
  m_FAILURE_TYPE :: string
  m_LAST_UPDATED :: int

record active_failure_row =
  a_ENTITY_ID :: string
  a_FAILURE_TYPE :: string
  a_STARTED_AT :: int
  a_LAST_UPDATED :: int

text \<open>
  An in-process read cache \<^verbatim>\<open>{"data": ..., "timestamp": ...}\<close>; the cached payload is
  the JSON text it would serve.
\<close>

record cache =
  data :: "string option"
  timestamp :: int

record state =
  STREAM_STATE :: "stream_state_row option"
  FAILURE_CONFIG :: "failure_config_row list"
  TELEMETRY :: "telemetry_row list"
  NORMAL_SEED :: "normal_seed_row list"
  ENGINE_FAILURE_SEED :: "failure_seed_row list"
  TRANSMISSION_FAILURE_SEED :: "failure_seed_row list"
  ELECTRICAL_FAILURE_SEED :: "failure_seed_row list"
  PREDICTION_CACHE :: "prediction_row list"
  FIRST_FAILURE_MARKERS :: "marker_row list"
  ACTIVE_FAILURES :: "active_failure_row list"
  ENHANCED_PREDICTIVE_VIEW_HYBRID_TTF :: "prediction_row list"
  telemetry_cache :: cache
  predictions_cache :: cache
  failures_cache :: cache
  chart_cache :: cache
  markers_cache :: cache
  refresh_in_progress :: bool
  last_refresh_time :: int

datatype response =
    Success
  | Success_epoch int
  | Success_epochs_inserted int
  | Success_message string
  | Error string
  | Throttled int
  | In_progress string

section \<open>The store helpers\<close>

text \<open>
  \<^verbatim>\<open>execute_sql(query)\<close> runs one statement and returns nothing. It returns silently
  when there is no session, and it catches every exception of the store and only logs
  it. A statement is therefore either applied or leaves the state as it was, and the
  caller cannot tell which: the outcome of each call is a boolean given from outside.
  A statement text that the store cannot parse is never applied.
\<close>

datatype statement = Stmt "state \<Rightarrow> state" | Unparsable string

fun execute_sql :: "bool \<Rightarrow> statement \<Rightarrow> state \<Rightarrow> state" where
  "execute_sql ok (Stmt f) s = (if ok then f s else s)"
| "execute_sql ok (Unparsable txt) s = s"

text \<open>
  \<^verbatim>\<open>execute_query(query)\<close> returns the rows, and the empty frame when there is no
  session or the store fails (both attempts of the source).
\<close>

definition execute_query :: "bool \<Rightarrow> 'a list \<Rightarrow> 'a list" where
  "execute_query ok rows = (if ok then rows else [])"

definition stream_state_rows :: "state \<Rightarrow> stream_state_row list" where
  "stream_state_rows s = (case STREAM_STATE s of None \<Rightarrow> [] | Some st \<Rightarrow> [st])"

definition COALESCE0 :: "int option \<Rightarrow> int" where
  "COALESCE0 v = (case v of None \<Rightarrow> 0 | Some x \<Rightarrow> x)"

text \<open>The timestamp of an epoch: \<^verbatim>\<open>DATEADD(second, epoch * step_seconds, start_ts)\<close>.\<close>

definition epoch_ts :: "stream_state_row \<Rightarrow> int \<Rightarrow> int" where
  "epoch_ts st e = st_start_ts st + e * st_step_seconds st"

text \<open>
  The anti-join every insert ends with:
  \<^verbatim>\<open>LEFT JOIN TELEMETRY existing ON existing.Timestamp = ts AND existing.entity_id = id
  WHERE existing.entity_id IS NULL\<close>.
\<close>

definition existing :: "telemetry_row list \<Rightarrow> int \<Rightarrow> string \<Rightarrow> bool" where
  "existing tel ts eid = ((ts, eid) \<in> set (map (\<lambda>d. (d_Timestamp d, d_entity_id d)) tel))"

section \<open>\<^verbatim>\<open>write_epoch\<close>: the single-step writer\<close>

text \<open>
  The CTE \<^verbatim>\<open>active_failures\<close>: enabled rows whose \<^verbatim>\<open>effective_from_epoch\<close> is at most
  the target epoch (a NULL fails the comparison), with
  \<^verbatim>\<open>COALESCE(failure_next_epoch, 0) + 1\<close> as the seed offset to read.
\<close>

definition effective_at :: "failure_config_row \<Rightarrow> int \<Rightarrow> bool" where
  "effective_at fc target =
     (fc_enabled fc \<and> (case fc_effective_from_epoch fc of None \<Rightarrow> False | Some eff \<Rightarrow> eff \<le> target))"

definition active_failures :: "state \<Rightarrow> int \<Rightarrow> (string \<times> string \<times> int) list" where
  "active_failures s target =
     [(fc_entity_id fc, fc_failure_type fc, COALESCE0 (fc_failure_next_epoch fc) + 1).
        fc \<leftarrow> FAILURE_CONFIG s, effective_at fc target]"

text \<open>
  The three left joins of \<^verbatim>\<open>failure_data\<close> (and the \<^verbatim>\<open>UNION ALL\<close> of step 3) pick the
  seed by the literal type name; any other name joins nothing.
\<close>

definition seeds :: "state \<Rightarrow> string \<Rightarrow> failure_seed_row list" where
  "seeds s ft =
     (if ft = ''ENGINE'' then ENGINE_FAILURE_SEED s
      else if ft = ''TRANSMISSION'' then TRANSMISSION_FAILURE_SEED s
      else if ft = ''ELECTRICAL'' then ELECTRICAL_FAILURE_SEED s
      else [])"

definition normal_data :: "state \<Rightarrow> stream_state_row \<Rightarrow> int \<Rightarrow> telemetry_row list" where
  "normal_data s si target =
     [\<lparr>d_Timestamp = epoch_ts si target, d_entity_id = n_entity_id n, d_sensors = n_sensors n\<rparr>.
        n \<leftarrow> NORMAL_SEED s, n_epoch n = target,
        n_entity_id n \<notin> set (map fst (active_failures s target))]"

definition failure_data :: "state \<Rightarrow> stream_state_row \<Rightarrow> int \<Rightarrow> telemetry_row list" where
  "failure_data s si target =
     [\<lparr>d_Timestamp = epoch_ts si target, d_entity_id = fst af, d_sensors = f_sensors f\<rparr>.
        af \<leftarrow> active_failures s target, f \<leftarrow> seeds s (fst (snd af)), f_epoch f = snd (snd af)]"

text \<open>Step 2 of the source: the one \<^verbatim>\<open>INSERT INTO TELEMETRY\<close> for the target epoch.\<close>

definition insert_epoch :: "int \<Rightarrow> state \<Rightarrow> state" where
  "insert_epoch target s =
     (let all_data = concat (map (\<lambda>si. normal_data s si target @ failure_data s si target)
                               (stream_state_rows s))
      in s\<lparr>TELEMETRY := TELEMETRY s @
            [ad \<leftarrow> all_data. \<not> existing (TELEMETRY s) (d_Timestamp ad) (d_entity_id ad)]\<rparr>)"

text \<open>
  Step 3: the cursor of an effective row moves by one exactly when its seed has a row at
  the offset just read.
\<close>

definition cursor_advances :: "state \<Rightarrow> int \<Rightarrow> failure_config_row \<Rightarrow> bool" where
  "cursor_advances s target fc =
     (effective_at fc target \<and>
      COALESCE0 (fc_failure_next_epoch fc) + 1 \<in> set (map f_epoch (seeds s (fc_failure_type fc))))"

definition update_failure_cursors :: "int \<Rightarrow> state \<Rightarrow> state" where
  "update_failure_cursors target s =
     s\<lparr>FAILURE_CONFIG :=
         map (\<lambda>fc. if cursor_advances s target fc
                    then fc\<lparr>fc_failure_next_epoch := Some (COALESCE0 (fc_failure_next_epoch fc) + 1)\<rparr>
                    else fc)
             (FAILURE_CONFIG s)\<rparr>"

text \<open>Step 4: \<^verbatim>\<open>UPDATE STREAM_STATE SET next_epoch = target\<close>.\<close>

definition set_next_epoch :: "int \<Rightarrow> state \<Rightarrow> state" where
  "set_next_epoch target s =
     s\<lparr>STREAM_STATE := map_option (\<lambda>st. st\<lparr>st_next_epoch := target\<rparr>) (STREAM_STATE s)\<rparr>"

definition invalidate :: "cache \<Rightarrow> cache" where
  "invalidate c = c\<lparr>timestamp := 0\<rparr>"

text \<open>
  The endpoint. \<open>ok i\<close> is the outcome of the \<open>i\<close>-th call to the store, in program
  order. The body runs in a \<^verbatim>\<open>try\<close> whose handler returns the error status, but no call
  of the body raises in this model: the two helpers swallow the store's exceptions, and
  the columns read by \<^verbatim>\<open>int(...)\<close> are not NULL. The local \<^verbatim>\<open>step_seconds\<close> of the
  source is computed and never used: the statements read the step from the table.
\<close>

definition write_epoch :: "(nat \<Rightarrow> bool) \<Rightarrow> state \<Rightarrow> response \<times> state" where
  "write_epoch ok s =
     (case execute_query (ok 0) (stream_state_rows s) of
        [] \<Rightarrow> (Error ''Stream state not found'', s)
      | st_row # _ \<Rightarrow>
          let current_epoch = st_next_epoch st_row;
              target_epoch = current_epoch + 1;
              s1 = execute_sql (ok 1) (Stmt (insert_epoch target_epoch)) s;
              s2 = execute_sql (ok 2) (Stmt (update_failure_cursors target_epoch)) s1;
              s3 = execute_sql (ok 3) (Stmt (set_next_epoch target_epoch)) s2;
              s4 = s3\<lparr>telemetry_cache := invalidate (telemetry_cache s3)\<rparr>
          in (Success_epoch target_epoch, s4))"

section \<open>\<^verbatim>\<open>fast_forward\<close>: the bulk writer\<close>

text \<open>
  \<^verbatim>\<open>generator(rowcount => K)\<close> with \<^verbatim>\<open>seq4()\<close> yields \<open>0, ..., K - 1\<close>.
\<close>

definition generator :: "int \<Rightarrow> int list" where
  "generator rowcount = map int [0..<nat rowcount]"

text \<open>
  The bulk insert of the entities outside \<^verbatim>\<open>failure_entities\<close>: one row per generated
  epoch \<open>ne + seq + 1\<close> and seed row of that epoch, unless the key is already stored.
\<close>

definition insert_normal_bulk :: "int \<Rightarrow> string list \<Rightarrow> state \<Rightarrow> state" where
  "insert_normal_bulk epochs_to_write failure_entities s =
     s\<lparr>TELEMETRY := TELEMETRY s @
        [\<lparr>d_Timestamp = epoch_ts st (st_next_epoch st + seq + 1),
          d_entity_id = n_entity_id n, d_sensors = n_sensors n\<rparr>.
           st \<leftarrow> stream_state_rows s, seq \<leftarrow> generator epochs_to_write, n \<leftarrow> NORMAL_SEED s,
           n_epoch n = st_next_epoch st + seq + 1,
           \<not> existing (TELEMETRY s) (epoch_ts st (st_next_epoch st + seq + 1)) (n_entity_id n),
           n_entity_id n \<notin> set failure_entities]\<rparr>"

text \<open>
  The seed of a configuration row in the loop: an \<^verbatim>\<open>if/elif/else\<close> whose last branch
  (commented \<^verbatim>\<open>ELECTRICAL\<close>) takes every other type name.
\<close>

definition seed_table :: "string \<Rightarrow> state \<Rightarrow> failure_seed_row list" where
  "seed_table ftype s =
     (if ftype = ''ENGINE'' then ENGINE_FAILURE_SEED s
      else if ftype = ''TRANSMISSION'' then TRANSMISSION_FAILURE_SEED s
      else ELECTRICAL_FAILURE_SEED s)"

text \<open>
  The bulk insert of one failing entity, joining the seed on
  \<^verbatim>\<open>f.epoch = cur + (g.seq + 1 - GREATEST(0, eff - (st.ne + 1)))\<close> for the generated epochs
  that are at least \<^verbatim>\<open>eff\<close>.
\<close>

definition insert_failure_bulk ::
    "int \<Rightarrow> string \<Rightarrow> string \<Rightarrow> int \<Rightarrow> int \<Rightarrow> state \<Rightarrow> state" where
  "insert_failure_bulk epochs_to_write eid ftype cur eff s =
     s\<lparr>TELEMETRY := TELEMETRY s @
        [\<lparr>d_Timestamp = epoch_ts st (st_next_epoch st + seq + 1),
          d_entity_id = eid, d_sensors = f_sensors f\<rparr>.
           st \<leftarrow> stream_state_rows s, seq \<leftarrow> generator epochs_to_write, f \<leftarrow> seed_table ftype s,
           f_epoch f = cur + (seq + 1 - max 0 (eff - (st_next_epoch st + 1))),
           st_next_epoch st + seq + 1 \<ge> eff,
           \<not> existing (TELEMETRY s) (epoch_ts st (st_next_epoch st + seq + 1)) eid]\<rparr>"

text \<open>
  The cursor advance the source computes for one row (\<^verbatim>\<open>simple math - no query needed\<close>):
  the number of generated epochs from \<^verbatim>\<open>eff\<close> on, whatever the seed holds.
\<close>

definition cursor_update :: "int \<Rightarrow> int \<Rightarrow> int \<Rightarrow> string \<Rightarrow> (string \<times> int) list" where
  "cursor_update ne epochs_to_write eff eid =
     (if ne + epochs_to_write \<ge> eff
      then (let adv = (if eff > ne then min epochs_to_write (ne + epochs_to_write - eff + 1)
                       else epochs_to_write)
            in if adv > 0 then [(eid, adv)] else [])
      else [])"

text \<open>
  The loop over \<^verbatim>\<open>cfg_df\<close>: one insert per row (the store call number \<open>i\<close> counts on) and
  the list \<^verbatim>\<open>cursor_updates\<close>. A NULL \<^verbatim>\<open>failure_next_epoch\<close> or
  \<^verbatim>\<open>effective_from_epoch\<close> reaches the data frame as NaN: it passes the test
  \<^verbatim>\<open>is not None\<close>, and \<^verbatim>\<open>int(...)\<close> raises on it. The loop then stops at that row,
  before its insert, with the inserts of the rows before it done: the result \<open>None\<close>
  in place of the list.
\<close>

fun failure_loop ::
    "(nat \<Rightarrow> bool) \<Rightarrow> nat \<Rightarrow> int \<Rightarrow> int \<Rightarrow> failure_config_row list \<Rightarrow>
     state \<times> (string \<times> int) list \<Rightarrow> state \<times> (string \<times> int) list option" where
  "failure_loop ok i epochs_to_write ne [] (s, cursor_updates) = (s, Some cursor_updates)"
| "failure_loop ok i epochs_to_write ne (row # rows) (s, cursor_updates) =
     (let eid = fc_entity_id row;
          ftype = fc_failure_type row
      in case fc_failure_next_epoch row of
           None \<Rightarrow> (s, None)
         | Some cur \<Rightarrow>
             (case fc_effective_from_epoch row of
                None \<Rightarrow> (s, None)
              | Some eff \<Rightarrow>
                  let s' = execute_sql (ok i)
                             (Stmt (insert_failure_bulk epochs_to_write eid ftype cur eff)) s
                  in failure_loop ok (Suc i) epochs_to_write ne rows
                       (s', cursor_updates @ cursor_update ne epochs_to_write eff eid)))"

text \<open>
  The batched \<^verbatim>\<open>UPDATE ... SET failure_next_epoch = CASE WHEN entity_id = ... END
  WHERE entity_id IN (...)\<close>: the first \<^verbatim>\<open>WHEN\<close> of an entity decides.
\<close>

definition update_cursors_batch :: "(string \<times> int) list \<Rightarrow> state \<Rightarrow> state" where
  "update_cursors_batch cursor_updates s =
     s\<lparr>FAILURE_CONFIG :=
         map (\<lambda>fc. case map_of cursor_updates (fc_entity_id fc) of
                      None \<Rightarrow> fc
                    | Some adv \<Rightarrow>
                        fc\<lparr>fc_failure_next_epoch := Some (COALESCE0 (fc_failure_next_epoch fc) + adv)\<rparr>)
             (FAILURE_CONFIG s)\<rparr>"

definition advance_next_epoch :: "int \<Rightarrow> state \<Rightarrow> state" where
  "advance_next_epoch epochs_to_write s =
     s\<lparr>STREAM_STATE :=
         map_option (\<lambda>st. st\<lparr>st_next_epoch := st_next_epoch st + epochs_to_write\<rparr>) (STREAM_STATE s)\<rparr>"

text \<open>
  \<^verbatim>\<open>epochs_to_write = int((hours * 3600) // step_seconds)\<close> with
  \<^verbatim>\<open>step_seconds = int(...) or 5\<close>; Python's \<^verbatim>\<open>//\<close> is the floor division \<open>div\<close>.
\<close>

definition epochs_of_hours :: "stream_state_row \<Rightarrow> int \<Rightarrow> int" where
  "epochs_of_hours st_row hours =
     (let step_seconds = (if st_step_seconds st_row = 0 then 5 else st_step_seconds st_row)
      in (hours * 3600) div step_seconds)"

text \<open>
  The endpoint. Store calls in program order: 0 the clock query, 1 the configuration
  query, 2 the bulk insert, 3 onwards one insert per configuration row, then the cursor
  update and the clock update. An exception of the loop is caught by the handler of the
  endpoint, which answers the error status with the message of the exception; the
  statements executed so far stay, the cursor and clock updates are not sent. When
  \<^verbatim>\<open>hours >= 1\<close> the source finally starts \<^verbatim>\<open>trigger_refresh_sync\<close> on a thread of its
  own and does not wait for it; that thread's effects are those of
  \<open>trigger_refresh_sync\<close> below and are not part of this function.
\<close>

definition fast_forward :: "(nat \<Rightarrow> bool) \<Rightarrow> int \<Rightarrow> state \<Rightarrow> response \<times> state" where
  "fast_forward ok hours s =
     (case execute_query (ok 0) (stream_state_rows s) of
        [] \<Rightarrow> (Error ''Stream state not found'', s)
      | st_row # _ \<Rightarrow>
          let ne = st_next_epoch st_row;
              epochs_to_write = epochs_of_hours st_row hours
          in if epochs_to_write \<le> 0 then (Error ''No epochs to write'', s)
             else
               let cfg_df = execute_query (ok 1) [fc \<leftarrow> FAILURE_CONFIG s. fc_enabled fc];
                   failure_entities = map fc_entity_id cfg_df;
                   s1 = execute_sql (ok 2) (Stmt (insert_normal_bulk epochs_to_write failure_entities)) s
               in case failure_loop ok 3 epochs_to_write ne cfg_df (s1, []) of
                    (s2, None) \<Rightarrow> (Error ''cannot convert float NaN to integer'', s2)
                  | (s2, Some cursor_updates) \<Rightarrow>
                      let s3 = (if cursor_updates \<noteq> []
                                then execute_sql (ok (3 + length cfg_df))
                                       (Stmt (update_cursors_batch cursor_updates)) s2
                                else s2);
                          s4 = execute_sql (ok (4 + length cfg_df))
                                 (Stmt (advance_next_epoch epochs_to_write)) s3
                      in (Success_epochs_inserted epochs_to_write, s4))"

section \<open>Failure activation, clearing and reset\<close>






definition clear_failures :: "(nat \<Rightarrow> bool) \<Rightarrow> state \<Rightarrow> response \<times> state" where
  "clear_failures ok s =
     (Success, execute_sql (ok 0) (Stmt (\<lambda>s. s\<lparr>FAILURE_CONFIG := []\<rparr>)) s)"

text \<open>
  \<^verbatim>\<open>reset_all_data\<close>: seven statements (the clock is deleted and re-inserted at the
  store's current time \<open>now\<close>), then a query whose result is only logged. When the
  delete of the clock row failed, the insert adds a second row and the readers of the
  clock keep taking the old one: the clock stays as it was.
\<close>

definition reset_all_data :: "(nat \<Rightarrow> bool) \<Rightarrow> int \<Rightarrow> state \<Rightarrow> response \<times> state" where
  "reset_all_data ok now s =
     (let s1 = execute_sql (ok 0) (Stmt (\<lambda>s. s\<lparr>TELEMETRY := []\<rparr>)) s;
          s2 = execute_sql (ok 1) (Stmt (\<lambda>s. s\<lparr>FIRST_FAILURE_MARKERS := []\<rparr>)) s1;
          s3 = execute_sql (ok 2) (Stmt (\<lambda>s. s\<lparr>ACTIVE_FAILURES := []\<rparr>)) s2;
          s4 = execute_sql (ok 3) (Stmt (\<lambda>s. s\<lparr>PREDICTION_CACHE := []\<rparr>)) s3;
          s5 = execute_sql (ok 4) (Stmt (\<lambda>s. s\<lparr>FAILURE_CONFIG := []\<rparr>)) s4;
          s6 = execute_sql (ok 5) (Stmt (\<lambda>s. s\<lparr>STREAM_STATE := None\<rparr>)) s5;
          s7 = execute_sql (ok 6)
                 (Stmt (\<lambda>s. s\<lparr>STREAM_STATE :=
                              (case STREAM_STATE s of
                                 None \<Rightarrow> Some \<lparr>st_start_ts = now, st_step_seconds = 5,
                                                st_next_epoch = 0\<rparr>
                               | Some old \<Rightarrow> Some old)\<rparr>)) s6
      in (Success_message ''Complete reset - all data cleared'', s7))"

section \<open>The refresh of the prediction cache\<close>

text \<open>
  The source of the \<^verbatim>\<open>MERGE INTO PREDICTION_CACHE\<close>: per entity the row of the view
  with the latest \<^verbatim>\<open>PREDICTION_TIMESTAMP\<close> (\<^verbatim>\<open>ROW_NUMBER() ... = 1\<close>; among equal
  timestamps the store picks one, here the first).
\<close>

fun latest_of :: "prediction_row \<Rightarrow> prediction_row list \<Rightarrow> prediction_row" where
  "latest_of best [] = best"
| "latest_of best (q # qs) =
     latest_of (if p_ENTITY_ID q = p_ENTITY_ID best \<and>
                   p_PREDICTION_TIMESTAMP q > p_PREDICTION_TIMESTAMP best then q else best) qs"

fun latest_per_entity :: "prediction_row list \<Rightarrow> prediction_row list" where
  "latest_per_entity [] = []"
| "latest_per_entity (p # ps) =
     latest_of p ps # latest_per_entity [q \<leftarrow> ps. p_ENTITY_ID q \<noteq> p_ENTITY_ID p]"

definition merge_prediction_cache :: "int \<Rightarrow> state \<Rightarrow> state" where
  "merge_prediction_cache now s =
     (let source = latest_per_entity (ENHANCED_PREDICTIVE_VIEW_HYBRID_TTF s)
      in s\<lparr>PREDICTION_CACHE :=
             map (\<lambda>target. case find (\<lambda>src. p_ENTITY_ID src = p_ENTITY_ID target) source of
                              None \<Rightarrow> target
                            | Some src \<Rightarrow> src\<lparr>p_LAST_UPDATED := now\<rparr>)
                 (PREDICTION_CACHE s) @
             [src\<lparr>p_LAST_UPDATED := now\<rparr>. src \<leftarrow> source,
                p_ENTITY_ID src \<notin> set (map p_ENTITY_ID (PREDICTION_CACHE s))]\<rparr>)"

text \<open>
  Step 2, \<^verbatim>\<open>only insert NEW failures\<close>: a marker for every cached non-normal prediction
  whose (entity, type) pair has no marker yet;
  \<^verbatim>\<open>TIME_SLICE(t, 5, 'MINUTE', 'START')\<close> is the start of the five-minute slice of \<open>t\<close>.
\<close>

definition insert_first_failure_markers :: "int \<Rightarrow> state \<Rightarrow> state" where
  "insert_first_failure_markers now s =
     s\<lparr>FIRST_FAILURE_MARKERS := FIRST_FAILURE_MARKERS s @
        [\<lparr>m_ENTITY_ID = p_ENTITY_ID p,
          m_FIRST_FAILURE_TIME = p_PREDICTION_TIMESTAMP p - p_PREDICTION_TIMESTAMP p mod 300,
          m_FAILURE_TYPE = p_PREDICTED_FAILURE_TYPE p,
          m_LAST_UPDATED = now\<rparr>.
           p \<leftarrow> PREDICTION_CACHE s, p_PREDICTED_FAILURE_TYPE p \<noteq> ''NORMAL'',
           (p_ENTITY_ID p, p_PREDICTED_FAILURE_TYPE p) \<notin>
             set (map (\<lambda>m. (m_ENTITY_ID m, m_FAILURE_TYPE m)) (FIRST_FAILURE_MARKERS s))]\<rparr>"

text \<open>
  The third statement (\<^verbatim>\<open>Remove markers for trucks that cleared\<close>) is the only SQL text
  of the file that is a plain string and not an f-string: the table names are not
  substituted and the store receives the braces as written. What the statement would
  do with the names substituted is \<open>delete_cleared_markers\<close>; what the source sends is
  \<open>delete_cleared_markers_sent\<close>.
\<close>

definition delete_cleared_markers :: "state \<Rightarrow> state" where
  "delete_cleared_markers s =
     s\<lparr>FIRST_FAILURE_MARKERS :=
         [m \<leftarrow> FIRST_FAILURE_MARKERS s.
            m_ENTITY_ID m \<in> set (map p_ENTITY_ID
              [p \<leftarrow> PREDICTION_CACHE s. p_PREDICTED_FAILURE_TYPE p \<noteq> ''NORMAL''])]\<rparr>"

definition delete_cleared_markers_sent :: statement where
  "delete_cleared_markers_sent =
     Unparsable ''DELETE FROM {FIRST_FAILURE_MARKERS} WHERE ENTITY_ID NOT IN (SELECT ENTITY_ID FROM {PREDICTION_CACHE} WHERE PREDICTED_FAILURE_TYPE != 'NORMAL')''"

text \<open>
  The body of the \<^verbatim>\<open>try\<close> of \<^verbatim>\<open>trigger_refresh_sync\<close>. The store's
  \<^verbatim>\<open>CURRENT_TIMESTAMP()\<close> is taken at the instant \<open>now\<close>. No call raises, so the two
  cache invalidations are always reached.
\<close>

definition refresh_body :: "(nat \<Rightarrow> bool) \<Rightarrow> int \<Rightarrow> state \<Rightarrow> state" where
  "refresh_body ok now s =
     (let s1 = execute_sql (ok 0) (Stmt (merge_prediction_cache now)) s;
          s2 = execute_sql (ok 1) (Stmt (insert_first_failure_markers now)) s1;
          s3 = execute_sql (ok 2) delete_cleared_markers_sent s2
      in s3\<lparr>predictions_cache := invalidate (predictions_cache s3),
            markers_cache := invalidate (markers_cache s3)\<rparr>)"

text \<open>
  \<^verbatim>\<open>trigger_refresh_sync\<close> run without interference, \<open>current_time\<close> being the value of
  \<^verbatim>\<open>time.time()\<close> it reads first.
\<close>

definition trigger_refresh_sync :: "(nat \<Rightarrow> bool) \<Rightarrow> int \<Rightarrow> state \<Rightarrow> state" where
  "trigger_refresh_sync ok current_time s =
     (if current_time - last_refresh_time s < 15 then s
      else if refresh_in_progress s then s
      else
        let s0 = s\<lparr>refresh_in_progress := True, last_refresh_time := current_time\<rparr>;
            s1 = refresh_body ok current_time s0
        in s1\<lparr>refresh_in_progress := False\<rparr>)"

definition refresh_predictions :: "(nat \<Rightarrow> bool) \<Rightarrow> int \<Rightarrow> state \<Rightarrow> response \<times> state" where
  "refresh_predictions ok current_time s =
     (if current_time - last_refresh_time s < 15
      then (Throttled (15 - (current_time - last_refresh_time s)), s)
      else if refresh_in_progress s then (In_progress ''Refresh already running'', s)
      else (Success, trigger_refresh_sync ok current_time s))"

subsection \<open>Threads running \<^verbatim>\<open>trigger_refresh_sync\<close>\<close>

text \<open>
  \<^verbatim>\<open>trigger_refresh_sync\<close> is also the target of the threads that \<^verbatim>\<open>fast_forward\<close> and
  \<^verbatim>\<open>get_latest_predictions\<close> start. A thread is at one of the program points below, in
  the order of the source: the cooldown test, the \<^verbatim>\<open>refresh_in_progress\<close> test, the
  entry of \<^verbatim>\<open>with refresh_lock\<close>, the two assignments, the \<^verbatim>\<open>try\<close> body, and the
  \<^verbatim>\<open>finally\<close> with the release of the lock. One step runs the code up to the next
  point; a thread waiting for the lock does not move.
\<close>

datatype pc =
    Check_cooldown | Check_in_progress | Acquire_lock | Set_flags | Run_refresh | Release
  | Skipped | Completed

record thread =
  t_pc :: pc
  t_current_time :: int

record system =
  sys_state :: state
  refresh_lock :: "nat option"
  sys_threads :: "thread list"

definition set_pc :: "nat \<Rightarrow> pc \<Rightarrow> system \<Rightarrow> system" where
  "set_pc tid p sys = sys\<lparr>sys_threads := (sys_threads sys)[tid := (sys_threads sys ! tid)\<lparr>t_pc := p\<rparr>]\<rparr>"

definition thread_step :: "(nat \<Rightarrow> bool) \<Rightarrow> nat \<Rightarrow> system \<Rightarrow> system" where
  "thread_step ok tid sys =
     (if tid \<ge> length (sys_threads sys) then sys
      else
        let th = sys_threads sys ! tid; s = sys_state sys in
        case t_pc th of
          Check_cooldown \<Rightarrow>
            set_pc tid (if t_current_time th - last_refresh_time s < 15
                        then Skipped else Check_in_progress) sys
        | Check_in_progress \<Rightarrow>
            set_pc tid (if refresh_in_progress s then Skipped else Acquire_lock) sys
        | Acquire_lock \<Rightarrow>
            (if refresh_lock sys = None
             then set_pc tid Set_flags (sys\<lparr>refresh_lock := Some tid\<rparr>)
             else sys)
        | Set_flags \<Rightarrow>
            set_pc tid Run_refresh
              (sys\<lparr>sys_state := s\<lparr>refresh_in_progress := True,
                                  last_refresh_time := t_current_time th\<rparr>\<rparr>)
        | Run_refresh \<Rightarrow>
            set_pc tid Release (sys\<lparr>sys_state := refresh_body ok (t_current_time th) s\<rparr>)
        | Release \<Rightarrow>
            set_pc tid Completed
              (sys\<lparr>sys_state := s\<lparr>refresh_in_progress := False\<rparr>, refresh_lock := None\<rparr>)
        | Skipped \<Rightarrow> sys
        | Completed \<Rightarrow> sys)"

text \<open>A schedule names the thread that takes each next step.\<close>

definition run_schedule :: "(nat \<Rightarrow> bool) \<Rightarrow> nat list \<Rightarrow> system \<Rightarrow> system" where
  "run_schedule ok schedule sys = fold (thread_step ok) schedule sys"

section \<open>Vocabulary of the properties\<close>

text \<open>Every call to the store succeeds.\<close>

definition store_ok :: "nat \<Rightarrow> bool" where
  "store_ok = (\<lambda>i. True)"

text \<open>\<open>k\<close> invocations of \<open>write_epoch\<close>, one after the other.\<close>

fun write_epochs :: "(nat \<Rightarrow> bool) \<Rightarrow> nat \<Rightarrow> state \<Rightarrow> state" where
  "write_epochs ok 0 s = s"
| "write_epochs ok (Suc k) s = snd (write_epoch ok (write_epochs ok k s))"

text \<open>The stored telemetry rows of one entity.\<close>

definition rows_of :: "string \<Rightarrow> state \<Rightarrow> telemetry_row list" where
  "rows_of e s = [d \<leftarrow> TELEMETRY s. d_entity_id d = e]"

text \<open>
  An entity with no failure active: no enabled row of \<^verbatim>\<open>FAILURE_CONFIG\<close> names it (the
  rows \<^verbatim>\<open>fast_forward\<close> reads into \<^verbatim>\<open>failure_entities\<close>).
\<close>

definition inactive :: "string \<Rightarrow> state \<Rightarrow> bool" where
  "inactive e s = (e \<notin> set (map fc_entity_id [fc \<leftarrow> FAILURE_CONFIG s. fc_enabled fc]))"

text \<open>
  The rows of the normal series of entity \<open>e\<close> for the \<open>k\<close> epochs after the clock
  \<open>st\<close>, without those whose key is stored in \<open>s\<close>.
\<close>

definition normal_rows :: "state \<Rightarrow> stream_state_row \<Rightarrow> string \<Rightarrow> nat \<Rightarrow> telemetry_row list" where
  "normal_rows s st e k =
     [\<lparr>d_Timestamp = epoch_ts st (st_next_epoch st + seq + 1), d_entity_id = e, d_sensors = n_sensors n\<rparr>.
        seq \<leftarrow> map int [0..<k], n \<leftarrow> NORMAL_SEED s,
        n_epoch n = st_next_epoch st + seq + 1 \<and> n_entity_id n = e \<and>
        \<not> existing (TELEMETRY s) (epoch_ts st (st_next_epoch st + seq + 1)) e]"

text \<open>A small fleet for the concrete instances: a 20-minute step, so that one hour is 3 epochs.\<close>

definition example_clock :: stream_state_row where
  "example_clock = \<lparr>st_start_ts = 0, st_step_seconds = 1200, st_next_epoch = 0\<rparr>"

definition sensor :: "real \<Rightarrow> reading" where
  "sensor x = \<lparr>engine_temp = x, trans_oil_pressure = 50, battery_voltage = 12\<rparr>"

text \<open>The fleet below after \<^verbatim>\<open>ENGINE\<close> has been activated for \<^verbatim>\<open>T1\<close> at epoch 0.\<close>

definition T1_engine :: failure_config_row where
  "T1_engine =
     \<lparr>fc_entity_id = ''T1'', fc_enabled = True, fc_failure_type = ''ENGINE'',
      fc_failure_next_epoch = Some 0, fc_effective_from_epoch = Some 1\<rparr>"

definition empty_cache :: cache where
  "empty_cache = \<lparr>data = None, timestamp = 0\<rparr>"

definition example_state :: state where
  "example_state =
     \<lparr>STREAM_STATE = Some example_clock,
      FAILURE_CONFIG = [],
      TELEMETRY = [],
      NORMAL_SEED =
        [\<lparr>n_entity_id = ''T1'', n_epoch = 1, n_sensors = sensor 80\<rparr>,
         \<lparr>n_entity_id = ''T1'', n_epoch = 2, n_sensors = sensor 81\<rparr>,
         \<lparr>n_entity_id = ''T1'', n_epoch = 3, n_sensors = sensor 82\<rparr>,
         \<lparr>n_entity_id = ''T2'', n_epoch = 1, n_sensors = sensor 90\<rparr>,
         \<lparr>n_entity_id = ''T2'', n_epoch = 2, n_sensors = sensor 91\<rparr>,
         \<lparr>n_entity_id = ''T2'', n_epoch = 3, n_sensors = sensor 92\<rparr>],
      ENGINE_FAILURE_SEED =
        [\<lparr>f_epoch = 1, f_sensors = sensor 100\<rparr>,
         \<lparr>f_epoch = 2, f_sensors = sensor 110\<rparr>,
         \<lparr>f_epoch = 3, f_sensors = sensor 120\<rparr>],
      TRANSMISSION_FAILURE_SEED = [],
      ELECTRICAL_FAILURE_SEED = [],
      PREDICTION_CACHE = [],
      FIRST_FAILURE_MARKERS = [],
      ACTIVE_FAILURES = [],
      ENHANCED_PREDICTIVE_VIEW_HYBRID_TTF = [],
      telemetry_cache = empty_cache,
      predictions_cache = empty_cache,
      failures_cache = empty_cache,
      chart_cache = empty_cache,
      markers_cache = empty_cache,
      refresh_in_progress = False,
      last_refresh_time = 0\<rparr>"

text \<open>A store on which every call succeeds except call number \<open>j\<close>.\<close>

definition fails_at :: "nat \<Rightarrow> nat \<Rightarrow> bool" where
  "fails_at j i = (i \<noteq> j)"

text \<open>
  The fleet with \<^verbatim>\<open>T1\<close> failing and an engine series that ends at offset 2.
\<close>

definition short_seed_state :: state where
  "short_seed_state = example_state
     \<lparr>FAILURE_CONFIG := [T1_engine],
      ENGINE_FAILURE_SEED :=
        [\<lparr>f_epoch = 1, f_sensors = sensor 100\<rparr>, \<lparr>f_epoch = 2, f_sensors = sensor 110\<rparr>]\<rparr>"

text \<open>
  The fleet with a marker recorded for \<^verbatim>\<open>T1\<close>, whose latest prediction in the upstream
  view is \<^verbatim>\<open>NORMAL\<close> again.
\<close>

definition T1_prediction :: "string \<Rightarrow> int \<Rightarrow> prediction_row" where
  "T1_prediction ty ts =
     \<lparr>p_ENTITY_ID = ''T1'', p_PREDICTION_TIMESTAMP = ts, p_PREDICTED_FAILURE_TYPE = ty,
      p_PREDICTED_HOURS_TO_FAILURE = 4, p_TTF_MODEL_USED = ''hybrid'', p_CURRENT = sensor 100,
      p_LAST_UPDATED = 0\<rparr>"

definition T1_marker :: marker_row where
  "T1_marker =
     \<lparr>m_ENTITY_ID = ''T1'', m_FIRST_FAILURE_TIME = 600, m_FAILURE_TYPE = ''ENGINE'',
      m_LAST_UPDATED = 0\<rparr>"

definition cleared_state :: state where
  "cleared_state = example_state
     \<lparr>PREDICTION_CACHE := [T1_prediction ''ENGINE'' 600],
      FIRST_FAILURE_MARKERS := [T1_marker],
      ENHANCED_PREDICTIVE_VIEW_HYBRID_TTF := [T1_prediction ''NORMAL'' 7200]\<rparr>"

text \<open>The fleet with \<^verbatim>\<open>T1\<close> failing and two read caches filled at time 100.\<close>

definition cached_state :: state where
  "cached_state = example_state
     \<lparr>FAILURE_CONFIG := [T1_engine],
      telemetry_cache := \<lparr>data = Some ''telemetry'', timestamp = 100\<rparr>,
      failures_cache := \<lparr>data = Some ''T1 ENGINE'', timestamp = 100\<rparr>\<rparr>"

text \<open>
  Two threads entering \<^verbatim>\<open>trigger_refresh_sync\<close> at time 100, and the schedule in which
  both run their two tests before either takes the lock.
\<close>

definition two_triggers :: system where
  "two_triggers =
     \<lparr>sys_state = example_state, refresh_lock = None,
      sys_threads = [\<lparr>t_pc = Check_cooldown, t_current_time = 100\<rparr>,
                     \<lparr>t_pc = Check_cooldown, t_current_time = 100\<rparr>]\<rparr>"

definition race_schedule :: "nat list" where
  "race_schedule = [0, 0, 1, 1, 0, 0, 0, 0, 1, 1, 1, 1]"

text \<open>
  Configuration rows without a NULL in the two epoch columns (the rows the activation
  writes have none).
\<close>

definition no_nulls :: "failure_config_row list \<Rightarrow> bool" where
  "no_nulls rows =
     (None \<notin> set (map fc_failure_next_epoch rows) \<and>
      None \<notin> set (map fc_effective_from_epoch rows))"

text \<open>
  The fleet with an enabled row of \<^verbatim>\<open>T1\<close> whose cursor is NULL, the fleet on a clock
  whose stored step is 0, and the fleet where \<^verbatim>\<open>T1\<close> was activated before and its
  cursor stands at 5 (the engine series going on at the offsets 6, 7, 8).
\<close>

definition null_cursor_state :: state where
  "null_cursor_state = example_state
     \<lparr>FAILURE_CONFIG := [T1_engine\<lparr>fc_failure_next_epoch := None\<rparr>]\<rparr>"

definition zero_step_state :: state where
  "zero_step_state = example_state
     \<lparr>STREAM_STATE := Some \<lparr>st_start_ts = 0, st_step_seconds = 0, st_next_epoch = 0\<rparr>\<rparr>"


section \<open>Projections of the statements\<close>

lemma epoch_ts_inj: "st_step_seconds st \<noteq> 0 \<Longrightarrow> epoch_ts st a = epoch_ts st b \<longleftrightarrow> a = b"
  by (simp add: epoch_ts_def)

lemma epoch_ts_next [simp]: "epoch_ts (st\<lparr>st_next_epoch := x\<rparr>) a = epoch_ts st a"
  by (simp add: epoch_ts_def)

lemma existing_rows_of: "existing (TELEMETRY s) ts e \<longleftrightarrow> ts \<in> set (map d_Timestamp (rows_of e s))"
  by (auto simp: existing_def rows_of_def)

lemma insert_failure_bulk_proj [simp]:
  "STREAM_STATE (insert_failure_bulk K eid ft cur eff s) = STREAM_STATE s"
  "NORMAL_SEED (insert_failure_bulk K eid ft cur eff s) = NORMAL_SEED s"
  "FAILURE_CONFIG (insert_failure_bulk K eid ft cur eff s) = FAILURE_CONFIG s"
  by (simp_all add: insert_failure_bulk_def)

lemma insert_normal_bulk_proj [simp]:
  "STREAM_STATE (insert_normal_bulk K ids s) = STREAM_STATE s"
  "NORMAL_SEED (insert_normal_bulk K ids s) = NORMAL_SEED s"
  "FAILURE_CONFIG (insert_normal_bulk K ids s) = FAILURE_CONFIG s"
  by (simp_all add: insert_normal_bulk_def)

lemma update_cursors_batch_proj [simp]:
  "STREAM_STATE (update_cursors_batch cu s) = STREAM_STATE s"
  "NORMAL_SEED (update_cursors_batch cu s) = NORMAL_SEED s"
  "TELEMETRY (update_cursors_batch cu s) = TELEMETRY s"
  by (simp_all add: update_cursors_batch_def)

lemma advance_next_epoch_proj [simp]:
  "STREAM_STATE (advance_next_epoch K s) =
     map_option (\<lambda>st. st\<lparr>st_next_epoch := st_next_epoch st + K\<rparr>) (STREAM_STATE s)"
  "NORMAL_SEED (advance_next_epoch K s) = NORMAL_SEED s"
  "TELEMETRY (advance_next_epoch K s) = TELEMETRY s"
  "FAILURE_CONFIG (advance_next_epoch K s) = FAILURE_CONFIG s"
  by (simp_all add: advance_next_epoch_def)

lemma failure_loop_proj:
  "STREAM_STATE (fst (failure_loop ok i K ne rows (s, cu))) = STREAM_STATE s"
  "NORMAL_SEED (fst (failure_loop ok i K ne rows (s, cu))) = NORMAL_SEED s"
  "FAILURE_CONFIG (fst (failure_loop ok i K ne rows (s, cu))) = FAILURE_CONFIG s"
  by (induction rows arbitrary: i s cu; simp add: Let_def split: option.split)+

section \<open>The single-step writer, every call succeeding\<close>

lemma write_epoch_ok_state:
  assumes "STREAM_STATE s = Some st"
  shows "snd (write_epoch (\<lambda>_. True) s) =
     (let t = st_next_epoch st + 1; s1 = insert_epoch t s;
          s2 = update_failure_cursors t s1; s3 = set_next_epoch t s2
      in s3\<lparr>telemetry_cache := invalidate (telemetry_cache s3)\<rparr>)"
  using assms by (simp add: write_epoch_def execute_query_def stream_state_rows_def Let_def)

lemma write_epoch_clock:
  assumes "STREAM_STATE s = Some st"
  shows "STREAM_STATE (snd (write_epoch (\<lambda>_. True) s)) =
           Some (st\<lparr>st_next_epoch := st_next_epoch st + 1\<rparr>)"
  using assms
  by (simp add: write_epoch_ok_state Let_def set_next_epoch_def update_failure_cursors_def
      insert_epoch_def)

lemma write_epoch_seed:
  assumes "STREAM_STATE s = Some st"
  shows "NORMAL_SEED (snd (write_epoch (\<lambda>_. True) s)) = NORMAL_SEED s"
  using assms
  by (simp add: write_epoch_ok_state Let_def set_next_epoch_def update_failure_cursors_def
      insert_epoch_def)

lemma enabled_ids_map_cursor:
  "map fc_entity_id
     [fc \<leftarrow> map (\<lambda>fc. if P fc then fc\<lparr>fc_failure_next_epoch := g fc\<rparr> else fc) cfg. fc_enabled fc]
     = map fc_entity_id [fc \<leftarrow> cfg. fc_enabled fc]"
  by (induction cfg) auto

lemma write_epoch_inactive:
  assumes "STREAM_STATE s = Some st"
  shows "inactive e (snd (write_epoch (\<lambda>_. True) s)) = inactive e s"
proof -
  let ?t = "st_next_epoch st + 1"
  have "FAILURE_CONFIG (snd (write_epoch (\<lambda>_. True) s)) =
      FAILURE_CONFIG (update_failure_cursors ?t (insert_epoch ?t s))"
    using assms by (simp add: write_epoch_ok_state Let_def set_next_epoch_def)
  also have "\<dots> =
      map (\<lambda>fc. if cursor_advances (insert_epoch ?t s) ?t fc
                 then fc\<lparr>fc_failure_next_epoch := Some (COALESCE0 (fc_failure_next_epoch fc) + 1)\<rparr>
                 else fc) (FAILURE_CONFIG s)"
    by (simp add: update_failure_cursors_def insert_epoch_def Let_def)
  finally show ?thesis
    unfolding inactive_def by (simp only: enabled_ids_map_cursor)
qed

lemma inactive_active_failures: "inactive e s \<Longrightarrow> e \<notin> set (map fst (active_failures s t))"
  by (auto simp: inactive_def active_failures_def effective_at_def)

lemma rows_of_failure_data: "inactive e s \<Longrightarrow> [d \<leftarrow> failure_data s si t. d_entity_id d = e] = []"
proof -
  assume a: "inactive e s"
  have "\<forall>d \<in> set (failure_data s si t). d_entity_id d \<in> set (map fst (active_failures s t))"
    by (auto simp: failure_data_def)
  with inactive_active_failures[OF a, of t] show ?thesis
    by (auto simp: filter_empty_conv)
qed

lemma rows_of_normal_data:
  assumes "inactive e s"
  shows "[d \<leftarrow> [ad \<leftarrow> normal_data s si t. \<not> existing tel (d_Timestamp ad) (d_entity_id ad)].
            d_entity_id d = e]
     = [\<lparr>d_Timestamp = epoch_ts si t, d_entity_id = e, d_sensors = n_sensors n\<rparr>.
          n \<leftarrow> NORMAL_SEED s, n_epoch n = t \<and> n_entity_id n = e \<and> \<not> existing tel (epoch_ts si t) e]"
proof -
  have "[d \<leftarrow> [ad \<leftarrow> [\<lparr>d_Timestamp = epoch_ts si t, d_entity_id = n_entity_id n,
                        d_sensors = n_sensors n\<rparr>.
        n \<leftarrow> ns, n_epoch n = t, n_entity_id n \<notin> set (map fst (active_failures s t))].
           \<not> existing tel (d_Timestamp ad) (d_entity_id ad)]. d_entity_id d = e]
     = [\<lparr>d_Timestamp = epoch_ts si t, d_entity_id = e, d_sensors = n_sensors n\<rparr>.
          n \<leftarrow> ns, n_epoch n = t \<and> n_entity_id n = e \<and> \<not> existing tel (epoch_ts si t) e]" for ns
    using inactive_active_failures[OF assms, of t]
    by (induction ns) auto
  then show ?thesis by (simp add: normal_data_def)
qed

lemma write_epoch_rows:
  assumes "STREAM_STATE s = Some st" "inactive e s"
  shows "rows_of e (snd (write_epoch (\<lambda>_. True) s)) = rows_of e s @
     [\<lparr>d_Timestamp = epoch_ts st (st_next_epoch st + 1), d_entity_id = e, d_sensors = n_sensors n\<rparr>.
        n \<leftarrow> NORMAL_SEED s,
        n_epoch n = st_next_epoch st + 1 \<and> n_entity_id n = e \<and>
        \<not> existing (TELEMETRY s) (epoch_ts st (st_next_epoch st + 1)) e]"
proof -
  let ?t = "st_next_epoch st + 1"
  let ?nex = "\<lambda>ad. \<not> existing (TELEMETRY s) (d_Timestamp ad) (d_entity_id ad)"
  have tel: "TELEMETRY (snd (write_epoch (\<lambda>_. True) s)) =
      TELEMETRY s @ filter ?nex (normal_data s st ?t) @ filter ?nex (failure_data s st ?t)"
    using assms(1)
    by (simp add: write_epoch_ok_state Let_def set_next_epoch_def update_failure_cursors_def
        insert_epoch_def stream_state_rows_def)
  have f: "[d \<leftarrow> filter ?nex (failure_data s st ?t). d_entity_id d = e] = []"
  proof -
    have "[d \<leftarrow> filter ?nex (failure_data s st ?t). d_entity_id d = e]
        = filter ?nex [d \<leftarrow> failure_data s st ?t. d_entity_id d = e]"
      by (simp add: conj_commute)
    then show ?thesis by (simp only: rows_of_failure_data[OF assms(2)] filter.simps)
  qed
  show ?thesis
    unfolding rows_of_def tel filter_append f
    by (simp only: rows_of_normal_data[OF assms(2)] append_Nil2)
qed

lemma normal_rows_Suc:
  "normal_rows s st e (Suc k) = normal_rows s st e k @
     [\<lparr>d_Timestamp = epoch_ts st (st_next_epoch st + int k + 1), d_entity_id = e,
       d_sensors = n_sensors n\<rparr>.
        n \<leftarrow> NORMAL_SEED s,
        n_epoch n = st_next_epoch st + int k + 1 \<and> n_entity_id n = e \<and>
        \<not> existing (TELEMETRY s) (epoch_ts st (st_next_epoch st + int k + 1)) e]"
  by (simp add: normal_rows_def)

lemma normal_rows_ts:
  "d \<in> set (normal_rows s st e k) \<Longrightarrow>
     \<exists>j<k. d_Timestamp d = epoch_ts st (st_next_epoch st + int j + 1)"
  by (auto simp: normal_rows_def split: if_splits)

text \<open>
  After \<open>k\<close> single steps the rows of an entity with no failure active are its stored
  rows followed by the normal series of the \<open>k\<close> epochs: a step never finds the key of
  its own epoch among the rows of the steps before, the timestamps being distinct.
\<close>

lemma write_epochs_inv:
  assumes "STREAM_STATE s = Some st" "st_step_seconds st \<noteq> 0" "inactive e s"
  shows "STREAM_STATE (write_epochs (\<lambda>_. True) k s) =
           Some (st\<lparr>st_next_epoch := st_next_epoch st + int k\<rparr>)
       \<and> NORMAL_SEED (write_epochs (\<lambda>_. True) k s) = NORMAL_SEED s
       \<and> inactive e (write_epochs (\<lambda>_. True) k s)
       \<and> rows_of e (write_epochs (\<lambda>_. True) k s) = rows_of e s @ normal_rows s st e k"
proof (induction k)
  case 0
  show ?case using assms by (simp add: normal_rows_def)
next
  case (Suc k)
  let ?sk = "write_epochs (\<lambda>_. True) k s"
  let ?stk = "st\<lparr>st_next_epoch := st_next_epoch st + int k\<rparr>"
  from Suc have clk: "STREAM_STATE ?sk = Some ?stk" and seed: "NORMAL_SEED ?sk = NORMAL_SEED s"
    and ina: "inactive e ?sk" and rows: "rows_of e ?sk = rows_of e s @ normal_rows s st e k"
    by simp_all
  let ?ts = "epoch_ts st (st_next_epoch st + int k + 1)"
  have notnew: "?ts \<notin> set (map d_Timestamp (normal_rows s st e k))"
  proof
    assume "?ts \<in> set (map d_Timestamp (normal_rows s st e k))"
    then obtain d where "d \<in> set (normal_rows s st e k)" "d_Timestamp d = ?ts" by auto
    with normal_rows_ts obtain j where "j < k" "epoch_ts st (st_next_epoch st + int j + 1) = ?ts"
      by metis
    with epoch_ts_inj[OF assms(2)] show False by simp
  qed
  have ex: "existing (TELEMETRY ?sk) ?ts e \<longleftrightarrow> existing (TELEMETRY s) ?ts e"
    using notnew by (simp add: existing_rows_of rows)
  have "rows_of e (write_epochs (\<lambda>_. True) (Suc k) s) = rows_of e s @ normal_rows s st e (Suc k)"
    using write_epoch_rows[OF clk ina] ex
    by (simp add: rows seed normal_rows_Suc add.assoc cong: if_cong)
  then show ?case
    using write_epoch_clock[OF clk] write_epoch_seed[OF clk] write_epoch_inactive[OF clk, of e]
      ina seed
    by (simp add: add.assoc)
qed

section \<open>The bulk writer, every call succeeding\<close>

lemma insert_failure_bulk_rows:
  assumes "eid \<noteq> e"
  shows "rows_of e (insert_failure_bulk K eid ft cur eff s) = rows_of e s"
proof -
  have "TELEMETRY (insert_failure_bulk K eid ft cur eff s) = TELEMETRY s @
     [\<lparr>d_Timestamp = epoch_ts st (st_next_epoch st + seq + 1),
          d_entity_id = eid, d_sensors = f_sensors f\<rparr>.
           st \<leftarrow> stream_state_rows s, seq \<leftarrow> generator K, f \<leftarrow> seed_table ft s,
           f_epoch f = cur + (seq + 1 - max 0 (eff - (st_next_epoch st + 1))),
           st_next_epoch st + seq + 1 \<ge> eff,
           \<not> existing (TELEMETRY s) (epoch_ts st (st_next_epoch st + seq + 1)) eid]"
    (is "_ = _ @ ?new")
    by (simp add: insert_failure_bulk_def)
  moreover have "\<forall>d \<in> set ?new. d_entity_id d = eid"
    by (auto split: if_splits)
  ultimately show ?thesis using assms
    by (simp add: rows_of_def filter_empty_conv del: set_concat)
qed

lemma failure_loop_rows:
  "e \<notin> set (map fc_entity_id rows) \<Longrightarrow>
   rows_of e (fst (failure_loop ok i K ne rows (s, cu))) = rows_of e s"
  by (induction rows arbitrary: i s cu)
     (auto simp add: Let_def insert_failure_bulk_rows split: option.split)

text \<open>Without a NULL among the rows the loop runs to its end.\<close>

lemma no_nulls_Cons:
  "no_nulls (row # rows) \<longleftrightarrow>
     fc_failure_next_epoch row \<noteq> None \<and> fc_effective_from_epoch row \<noteq> None \<and> no_nulls rows"
  by (auto simp: no_nulls_def)

lemma failure_loop_Some:
  "no_nulls rows \<Longrightarrow> \<exists>cu'. snd (failure_loop ok i K ne rows (s, cu)) = Some cu'"
  by (induction rows arbitrary: i s cu) (auto simp add: no_nulls_Cons Let_def)

lemma filter_seed_rows:
  "[d \<leftarrow> [\<lparr>d_Timestamp = ts, d_entity_id = n_entity_id n, d_sensors = n_sensors n\<rparr>.
        n \<leftarrow> ns, n_epoch n = t, \<not> existing tel ts (n_entity_id n), n_entity_id n \<notin> set ids].
      d_entity_id d = e]
   = (if e \<in> set ids then [] else
      [\<lparr>d_Timestamp = ts, d_entity_id = e, d_sensors = n_sensors n\<rparr>.
        n \<leftarrow> ns, n_epoch n = t \<and> n_entity_id n = e \<and> \<not> existing tel ts e])"
  by (induction ns) auto

lemma insert_normal_bulk_rows:
  assumes "STREAM_STATE s = Some st" "e \<notin> set ids"
  shows "rows_of e (insert_normal_bulk (int k) ids s) = rows_of e s @ normal_rows s st e k"
proof -
  have "[d \<leftarrow> [\<lparr>d_Timestamp = epoch_ts st (st_next_epoch st + seq + 1),
          d_entity_id = n_entity_id n, d_sensors = n_sensors n\<rparr>.
           seq \<leftarrow> seqs, n \<leftarrow> NORMAL_SEED s,
           n_epoch n = st_next_epoch st + seq + 1,
           \<not> existing (TELEMETRY s) (epoch_ts st (st_next_epoch st + seq + 1)) (n_entity_id n),
           n_entity_id n \<notin> set ids]. d_entity_id d = e]
     = [\<lparr>d_Timestamp = epoch_ts st (st_next_epoch st + seq + 1), d_entity_id = e,
          d_sensors = n_sensors n\<rparr>.
        seq \<leftarrow> seqs, n \<leftarrow> NORMAL_SEED s,
        n_epoch n = st_next_epoch st + seq + 1 \<and> n_entity_id n = e \<and>
        \<not> existing (TELEMETRY s) (epoch_ts st (st_next_epoch st + seq + 1)) e]" for seqs
  proof (induction seqs)
    case Nil
    show ?case by simp
  next
    case (Cons a seqs)
    show ?case
      using Cons assms(2)
        filter_seed_rows[where ts="epoch_ts st (st_next_epoch st + a + 1)"
          and t="st_next_epoch st + a + 1" and tel="TELEMETRY s" and ids=ids
          and ns="NORMAL_SEED s" and e=e]
      by simp
  qed
  from this[of "map int [0..<k]"] show ?thesis
    using assms(1)
    by (simp add: rows_of_def insert_normal_bulk_def stream_state_rows_def normal_rows_def
        generator_def del: map_map)
qed

lemma fast_forward_ok_state:
  assumes "STREAM_STATE s = Some st" "epochs_of_hours st hours = K" "K > 0"
    and "no_nulls [fc \<leftarrow> FAILURE_CONFIG s. fc_enabled fc]"
  shows "fast_forward (\<lambda>_. True) hours s =
     (let cfg_df = [fc \<leftarrow> FAILURE_CONFIG s. fc_enabled fc];
          s1 = insert_normal_bulk K (map fc_entity_id cfg_df) s;
          r = failure_loop (\<lambda>_. True) 3 K (st_next_epoch st) cfg_df (s1, []);
          cu = the (snd r);
          s3 = (if cu \<noteq> [] then update_cursors_batch cu (fst r) else fst r)
      in (Success_epochs_inserted K, advance_next_epoch K s3))"
proof -
  let ?cfg = "[fc \<leftarrow> FAILURE_CONFIG s. fc_enabled fc]"
  let ?r = "failure_loop (\<lambda>_. True) 3 K (st_next_epoch st) ?cfg
              (insert_normal_bulk K (map fc_entity_id ?cfg) s, [])"
  from failure_loop_Some[OF assms(4)] obtain cu' where c: "snd ?r = Some cu'" by blast
  show ?thesis
    using assms(1,2,3) c
    by (simp add: fast_forward_def execute_query_def stream_state_rows_def Let_def
        case_prod_beta)
qed

lemma seeds_proj [simp]:
  "ENGINE_FAILURE_SEED (insert_failure_bulk K eid ft cur eff s) = ENGINE_FAILURE_SEED s"
  "ENGINE_FAILURE_SEED (insert_normal_bulk K ids s) = ENGINE_FAILURE_SEED s"
  by (simp_all add: insert_failure_bulk_def insert_normal_bulk_def)











section \<open>Activation\<close>



section \<open>Stored keys under the single-step writer\<close>

lemma insert_epoch_keeps:
  assumes "existing (TELEMETRY s) ts eid"
  shows "[d \<leftarrow> TELEMETRY (insert_epoch t s). d_Timestamp d = ts \<and> d_entity_id d = eid]
       = [d \<leftarrow> TELEMETRY s. d_Timestamp d = ts \<and> d_entity_id d = eid]"
  using assms by (auto simp: insert_epoch_def Let_def filter_empty_conv)

lemma write_epoch_telemetry:
  "TELEMETRY (snd (write_epoch ok s)) = TELEMETRY s \<or>
   (\<exists>t. TELEMETRY (snd (write_epoch ok s)) = TELEMETRY (insert_epoch t s))"
  by (auto simp: write_epoch_def Let_def update_failure_cursors_def set_next_epoch_def
      split: list.splits)

text \<open>Whatever the store does, a call adds no row under a key that is already stored.\<close>

lemma write_epoch_keeps:
  assumes "existing (TELEMETRY s) ts eid"
  shows "[d \<leftarrow> TELEMETRY (snd (write_epoch ok s)). d_Timestamp d = ts \<and> d_entity_id d = eid]
       = [d \<leftarrow> TELEMETRY s. d_Timestamp d = ts \<and> d_entity_id d = eid]"
  using write_epoch_telemetry[of ok s] insert_epoch_keeps[OF assms] by auto

section \<open>Cursor and rows under the single-step writer\<close>

text \<open>
  The failure rows staged for an epoch, configuration row by configuration row; the
  cursor of a row advances exactly when rows are staged for it.
\<close>

lemma failure_data_by_row:
  "failure_data s si t =
     concat (map (\<lambda>fc. if effective_at fc t
                        then [\<lparr>d_Timestamp = epoch_ts si t, d_entity_id = fc_entity_id fc,
                               d_sensors = f_sensors f\<rparr>.
                                f \<leftarrow> seeds s (fc_failure_type fc),
                                f_epoch f = COALESCE0 (fc_failure_next_epoch fc) + 1]
                        else [])
                 (FAILURE_CONFIG s))"
proof -
  have "concat (map (\<lambda>af. [\<lparr>d_Timestamp = epoch_ts si t, d_entity_id = fst af, d_sensors = f_sensors f\<rparr>.
                             f \<leftarrow> seeds s (fst (snd af)), f_epoch f = snd (snd af)])
          [(fc_entity_id fc, fc_failure_type fc, COALESCE0 (fc_failure_next_epoch fc) + 1).
             fc \<leftarrow> cfg, effective_at fc t])
      = concat (map (\<lambda>fc. if effective_at fc t
                        then [\<lparr>d_Timestamp = epoch_ts si t, d_entity_id = fc_entity_id fc,
                               d_sensors = f_sensors f\<rparr>.
                                f \<leftarrow> seeds s (fc_failure_type fc),
                                f_epoch f = COALESCE0 (fc_failure_next_epoch fc) + 1]
                        else []) cfg)" for cfg
    by (induction cfg) (simp_all cong: if_cong)
  then show ?thesis by (simp add: failure_data_def active_failures_def)
qed

lemma cursor_advances_iff_staged:
  "cursor_advances s t fc \<longleftrightarrow>
     (if effective_at fc t
      then [\<lparr>d_Timestamp = ts, d_entity_id = fc_entity_id fc, d_sensors = f_sensors f\<rparr>.
              f \<leftarrow> seeds s (fc_failure_type fc),
              f_epoch f = COALESCE0 (fc_failure_next_epoch fc) + 1]
      else []) \<noteq> []"
proof -
  have "[g f. f \<leftarrow> xs, f_epoch f = x] \<noteq> [] \<longleftrightarrow> x \<in> set (map f_epoch xs)" for g :: "failure_seed_row \<Rightarrow> telemetry_row" and xs x
    by (induction xs) auto
  then show ?thesis by (simp add: cursor_advances_def)
qed

section \<open>Markers and caches\<close>

text \<open>A refresh only appends to the markers: the recorded ones stay as they are.\<close>

lemma refresh_body_markers:
  "take (length (FIRST_FAILURE_MARKERS s)) (FIRST_FAILURE_MARKERS (refresh_body ok now s))
     = FIRST_FAILURE_MARKERS s"
  by (simp add: refresh_body_def Let_def delete_cleared_markers_sent_def
      merge_prediction_cache_def insert_first_failure_markers_def)

lemma markers_never_overwritten:
  "take (length (FIRST_FAILURE_MARKERS s)) (FIRST_FAILURE_MARKERS (trigger_refresh_sync ok t s))
     = FIRST_FAILURE_MARKERS s"
  using refresh_body_markers[of "s\<lparr>refresh_in_progress := True, last_refresh_time := t\<rparr>" ok t]
  by (simp add: trigger_refresh_sync_def Let_def)

text \<open>
  \<open>fast_forward\<close>, \<open>clear_failures\<close> and \<open>reset_all_data\<close> never write to a read cache.
\<close>

lemma failure_loop_caches:
  "telemetry_cache (fst (failure_loop ok i K ne rows (s, cu))) = telemetry_cache s"
  "failures_cache (fst (failure_loop ok i K ne rows (s, cu))) = failures_cache s"
  by (induction rows arbitrary: i s cu;
      simp add: Let_def insert_failure_bulk_def split: option.split)+

lemma fast_forward_telemetry_cache:
  "telemetry_cache (snd (fast_forward ok hours s)) = telemetry_cache s"
proof (cases "execute_query (ok 0) (stream_state_rows s)")
  case Nil
  then show ?thesis by (simp add: fast_forward_def)
next
  case (Cons st_row rest)
  show ?thesis
  proof (cases "epochs_of_hours st_row hours \<le> 0")
    case True
    with Cons show ?thesis by (simp add: fast_forward_def Let_def)
  next
    case False
    let ?K = "epochs_of_hours st_row hours"
    let ?cfg = "execute_query (ok 1) [fc \<leftarrow> FAILURE_CONFIG s. fc_enabled fc]"
    let ?s1 = "execute_sql (ok 2) (Stmt (insert_normal_bulk ?K (map fc_entity_id ?cfg))) s"
    let ?r = "failure_loop ok 3 ?K (st_next_epoch st_row) ?cfg (?s1, [])"
    have 1: "telemetry_cache ?s1 = telemetry_cache s"
      by (simp add: insert_normal_bulk_def)
    have 2: "telemetry_cache (fst ?r) = telemetry_cache ?s1"
      by (rule failure_loop_caches)
    have ff: "fast_forward ok hours s =
               (case ?r of
                  (s2, None) \<Rightarrow> (Error ''cannot convert float NaN to integer'', s2)
                | (s2, Some cursor_updates) \<Rightarrow>
                    let s3 = (if cursor_updates \<noteq> []
                              then execute_sql (ok (3 + length ?cfg))
                                     (Stmt (update_cursors_batch cursor_updates)) s2
                              else s2);
                        s4 = execute_sql (ok (4 + length ?cfg)) (Stmt (advance_next_epoch ?K)) s3
                    in (Success_epochs_inserted ?K, s4))"
      unfolding fast_forward_def using Cons False
      by (simp only: Let_def list.case if_False)
    have "telemetry_cache (snd (fast_forward ok hours s)) = telemetry_cache (fst ?r)"
      unfolding ff
      by (cases ?r)
         (simp add: Let_def update_cursors_batch_def advance_next_epoch_def split: option.split)
    then show ?thesis by (simp only: 2 1)
  qed
qed

lemma clear_failures_caches:
  "failures_cache (snd (clear_failures ok s)) = failures_cache s"
  by (simp add: clear_failures_def)

lemma reset_all_data_caches:
  "telemetry_cache (snd (reset_all_data ok now s)) = telemetry_cache s"
  "failures_cache (snd (reset_all_data ok now s)) = failures_cache s"
  "predictions_cache (snd (reset_all_data ok now s)) = predictions_cache s"
  "chart_cache (snd (reset_all_data ok now s)) = chart_cache s"
  "markers_cache (snd (reset_all_data ok now s)) = markers_cache s"
  by (simp_all add: reset_all_data_def Let_def)

section \<open>Store failures\<close>

text \<open>
  Once the clock row has been read (and, for the bulk writer, no enabled configuration
  row holds a NULL epoch), the answer of either writer is the success status, whatever
  the store does with the statements; and a single step whose insert fails still moves
  the clock.
\<close>

lemma write_epoch_always_success:
  assumes "STREAM_STATE s = Some st" "ok 0"
  shows "fst (write_epoch ok s) = Success_epoch (st_next_epoch st + 1)"
  using assms by (simp add: write_epoch_def execute_query_def stream_state_rows_def Let_def)

lemma write_epoch_failed_insert:
  assumes "STREAM_STATE s = Some st" "ok 0" "\<not> ok 1" "ok 3"
  shows "TELEMETRY (snd (write_epoch ok s)) = TELEMETRY s"
    and "STREAM_STATE (snd (write_epoch ok s)) = Some (st\<lparr>st_next_epoch := st_next_epoch st + 1\<rparr>)"
  using assms
  by (simp_all add: write_epoch_def execute_query_def stream_state_rows_def Let_def
      update_failure_cursors_def set_next_epoch_def)

lemma fast_forward_always_success:
  assumes "STREAM_STATE s = Some st" "ok 0" "epochs_of_hours st hours > 0"
    and "no_nulls [fc \<leftarrow> FAILURE_CONFIG s. fc_enabled fc]"
  shows "fst (fast_forward ok hours s) = Success_epochs_inserted (epochs_of_hours st hours)"
proof -
  let ?K = "epochs_of_hours st hours"
  let ?cfg = "execute_query (ok 1) [fc \<leftarrow> FAILURE_CONFIG s. fc_enabled fc]"
  let ?r = "failure_loop ok 3 ?K (st_next_epoch st) ?cfg
              (execute_sql (ok 2) (Stmt (insert_normal_bulk ?K (map fc_entity_id ?cfg))) s, [])"
  have "no_nulls ?cfg"
    using assms(4) by (cases "ok 1") (simp_all add: execute_query_def no_nulls_def)
  from failure_loop_Some[OF this] obtain cu' where c: "snd ?r = Some cu'" by blast
  have "fast_forward ok hours s =
          (case ?r of
             (s2, None) \<Rightarrow> (Error ''cannot convert float NaN to integer'', s2)
           | (s2, Some cursor_updates) \<Rightarrow>
               let s3 = (if cursor_updates \<noteq> []
                         then execute_sql (ok (3 + length ?cfg))
                                (Stmt (update_cursors_batch cursor_updates)) s2
                         else s2);
                   s4 = execute_sql (ok (4 + length ?cfg)) (Stmt (advance_next_epoch ?K)) s3
               in (Success_epochs_inserted ?K, s4))"
    unfolding fast_forward_def using assms(1,2,3)
    by (simp only: execute_query_def stream_state_rows_def Let_def option.case list.case if_True)
       simp
  then show ?thesis
    using c by (simp only: case_prod_beta option.case Let_def fst_conv)
qed

section \<open>The bulk writer against single steps\<close>

text \<open>
  Where the clock has a step other than zero, no enabled configuration row holds a NULL
  epoch and the store executes every statement, \<open>fast_forward\<close> over \<open>K \<ge> 1\<close> epochs
  leaves the same telemetry rows of an entity with no failure active (timestamps, entity
  id, sensor values, with multiplicity) as \<open>K\<close> invocations of \<open>write_epoch\<close>, and the same
  \<open>next_epoch\<close>.
\<close>

lemma fast_forward_equals_write_epochs:
  assumes "STREAM_STATE s = Some st" and "st_step_seconds st \<noteq> 0"
      and "epochs_of_hours st hours = int K" and "K \<ge> 1"
      and "inactive e s"
      and "no_nulls [fc \<leftarrow> FAILURE_CONFIG s. fc_enabled fc]"
  shows "mset (rows_of e (snd (fast_forward store_ok hours s)))
           = mset (rows_of e (write_epochs store_ok K s))
       \<and> map_option st_next_epoch (STREAM_STATE (snd (fast_forward store_ok hours s)))
           = map_option st_next_epoch (STREAM_STATE (write_epochs store_ok K s))"
proof -
  let ?cfg = "[fc \<leftarrow> FAILURE_CONFIG s. fc_enabled fc]"
  let ?s1 = "insert_normal_bulk (int K) (map fc_entity_id ?cfg) s"
  let ?r = "failure_loop (\<lambda>_. True) 3 (int K) (st_next_epoch st) ?cfg (?s1, [])"
  let ?ff = "snd (fast_forward (\<lambda>_. True) hours s)"
  from assms(5) have e: "e \<notin> set (map fc_entity_id ?cfg)" by (simp add: inactive_def)
  have K: "int K > 0" using assms(4) by simp
  have "rows_of e ?ff = rows_of e (fst ?r)"
    by (simp add: fast_forward_ok_state[OF assms(1,3) K assms(6)] Let_def rows_of_def)
  also have "\<dots> = rows_of e ?s1" by (rule failure_loop_rows[OF e])
  also have "\<dots> = rows_of e s @ normal_rows s st e K"
    by (rule insert_normal_bulk_rows[OF assms(1) e])
  finally have rows: "rows_of e ?ff = rows_of e (write_epochs (\<lambda>_. True) K s)"
    using write_epochs_inv[OF assms(1,2,5), of K] by simp
  have "STREAM_STATE ?ff = Some (st\<lparr>st_next_epoch := st_next_epoch st + int K\<rparr>)"
    using assms(1) by (simp add: fast_forward_ok_state[OF assms(1,3) K assms(6)] Let_def failure_loop_proj)
  with rows write_epochs_inv[OF assms(1,2,5), of K] show ?thesis
    by (simp add: store_ok_def)
qed

lemma fast_forward_equals_write_epochs_instance:
  "STREAM_STATE (example_state\<lparr>FAILURE_CONFIG := [T1_engine]\<rparr>) = Some example_clock
   \<and> st_step_seconds example_clock \<noteq> 0
   \<and> epochs_of_hours example_clock 1 = int 3
   \<and> (3::nat) \<ge> 1
   \<and> inactive ''T2'' (example_state\<lparr>FAILURE_CONFIG := [T1_engine]\<rparr>)
   \<and> mset (rows_of ''T2'' (snd (fast_forward store_ok 1 (example_state\<lparr>FAILURE_CONFIG := [T1_engine]\<rparr>))))
       = mset (rows_of ''T2'' (write_epochs store_ok 3 (example_state\<lparr>FAILURE_CONFIG := [T1_engine]\<rparr>)))
   \<and> map_option st_next_epoch
         (STREAM_STATE (snd (fast_forward store_ok 1 (example_state\<lparr>FAILURE_CONFIG := [T1_engine]\<rparr>))))
       = map_option st_next_epoch
           (STREAM_STATE (write_epochs store_ok 3 (example_state\<lparr>FAILURE_CONFIG := [T1_engine]\<rparr>)))"
proof -
  let ?s = "example_state\<lparr>FAILURE_CONFIG := [T1_engine]\<rparr>"
  have h1: "STREAM_STATE ?s = Some example_clock" by (simp add: example_state_def)
  have h2: "st_step_seconds example_clock \<noteq> 0" by (simp add: example_clock_def)
  have h3: "epochs_of_hours example_clock 1 = int 3"
    by (simp add: epochs_of_hours_def example_clock_def)
  have h4: "(3::nat) \<ge> 1" by simp
  have h5: "inactive ''T2'' ?s" by (simp add: inactive_def T1_engine_def)
  have h6: "no_nulls [fc \<leftarrow> FAILURE_CONFIG ?s. fc_enabled fc]"
    by (simp add: no_nulls_def T1_engine_def)
  from fast_forward_equals_write_epochs[OF h1 h2 h3 h4 h5 h6] h1 h2 h3 h4 h5
  show ?thesis by blast
qed

text \<open>
  On a clock whose stored step is 0 the two writers part: \<open>epochs_to_write\<close> is computed
  with the default step 5 (one hour is 720 epochs) while the statements take the stored
  0, so every epoch has the timestamp of the start. The bulk insert tests the keys
  against the rows stored before it and writes the whole series of \<open>T2\<close>; the single
  steps find the key of \<open>T2\<close> stored after the first one.
\<close>

lemma writers_differ_on_zero_step:
  "epochs_of_hours \<lparr>st_start_ts = 0, st_step_seconds = 0, st_next_epoch = 0\<rparr> 1 = 720
   \<and> map (engine_temp \<circ> d_sensors) (rows_of ''T2'' (snd (fast_forward store_ok 1 zero_step_state)))
        = [90, 91, 92]
   \<and> map (engine_temp \<circ> d_sensors) (rows_of ''T2'' (write_epochs store_ok 720 zero_step_state))
        = [90]"
  by code_simp

section \<open>The properties\<close>

text \<open>
  C1. The claim: for every entity with no failure active and every \<open>K \<ge> 1\<close>,
  \<open>fast_forward\<close> over \<open>K\<close> epochs produces the same telemetry rows as \<open>K\<close> invocations of
  \<open>write_epoch\<close> from the same state and leaves \<open>next_epoch\<close> at the same value. The code
  on the fleet where the enabled row of \<open>T1\<close> has a NULL cursor, for the entity \<open>T2\<close> with
  no failure active, over 3 epochs: the single-step writer reads the NULL cursor as 0
  (\<^verbatim>\<open>COALESCE\<close>) and three invocations leave \<open>next_epoch\<close> at 3; the bulk writer writes
  the rows of \<open>T2\<close>, then raises in its loop on the NULL, answers an error and leaves
  \<open>next_epoch\<close> at 0.
\<close>

theorem fast_forward_stops_on_null_cursor:
  "inactive ''T2'' null_cursor_state
   \<and> epochs_of_hours example_clock 1 = 3
   \<and> fst (fast_forward store_ok 1 null_cursor_state) = Error ''cannot convert float NaN to integer''
   \<and> map d_Timestamp (rows_of ''T2'' (snd (fast_forward store_ok 1 null_cursor_state)))
        = [1200, 2400, 3600]
   \<and> map_option st_next_epoch (STREAM_STATE (snd (fast_forward store_ok 1 null_cursor_state)))
        = Some 0
   \<and> map d_Timestamp (rows_of ''T2'' (write_epochs store_ok 3 null_cursor_state))
        = [1200, 2400, 3600]
   \<and> map_option st_next_epoch (STREAM_STATE (write_epochs store_ok 3 null_cursor_state))
        = Some 3"
  by code_simp

text \<open>
  C2. The claim: when a staging or row-write step of \<open>write_epoch\<close> or \<open>fast_forward\<close>
  fails, the operation aborts, reports the error, and leaves \<open>next_epoch\<close> unchanged.
  The code at a store that rejects the \<^verbatim>\<open>INSERT INTO TELEMETRY\<close> (call 1 of
  \<open>write_epoch\<close>, call 2 of \<open>fast_forward\<close>) and executes the rest: \<open>execute_sql\<close>
  swallows the failure, nothing is written, the endpoint answers success and the clock
  has moved on past the unwritten epochs.
\<close>

theorem failed_insert_still_advances_clock:
  "fst (write_epoch (fails_at 1) example_state) = Success_epoch 1
   \<and> TELEMETRY (snd (write_epoch (fails_at 1) example_state)) = []
   \<and> map_option st_next_epoch (STREAM_STATE (snd (write_epoch (fails_at 1) example_state))) = Some 1
   \<and> fst (fast_forward (fails_at 2) 1 example_state) = Success_epochs_inserted 3
   \<and> TELEMETRY (snd (fast_forward (fails_at 2) 1 example_state)) = []
   \<and> map_option st_next_epoch (STREAM_STATE (snd (fast_forward (fails_at 2) 1 example_state))) = Some 3"
  by code_simp

text \<open>
  C3, as stated: two invocations of \<open>write_epoch\<close> with nothing in between advance
  \<open>next_epoch\<close> by exactly 1, not 2. On the example fleet the clock goes from 0 to 2.
\<close>

theorem write_epoch_twice_advances_by_two:
  "map_option st_next_epoch (STREAM_STATE example_state) = Some 0
   \<and> map_option st_next_epoch
       (STREAM_STATE (snd (write_epoch store_ok (snd (write_epoch store_ok example_state))))) = Some 2
   \<and> map_option st_next_epoch
       (STREAM_STATE (snd (write_epoch store_ok (snd (write_epoch store_ok example_state))))) \<noteq> Some (0 + 1)"
  by code_simp

text \<open>
  C3, amended. Each invocation of \<open>write_epoch\<close> advances \<open>next_epoch\<close> by exactly 1, so
  two invocations in a row advance it by 2; and the second invocation duplicates no
  stored telemetry row: under every key (timestamp, entity) stored after the first
  invocation, the rows after the second are the same.
\<close>

theorem write_epoch_twice:
  assumes "STREAM_STATE s = Some st"
  shows "map_option st_next_epoch (STREAM_STATE (snd (write_epoch store_ok s)))
           = Some (st_next_epoch st + 1)
    \<and> map_option st_next_epoch
        (STREAM_STATE (snd (write_epoch store_ok (snd (write_epoch store_ok s)))))
           = Some (st_next_epoch st + 2)
    \<and> (existing (TELEMETRY (snd (write_epoch store_ok s))) ts eid \<longrightarrow>
        [d \<leftarrow> TELEMETRY (snd (write_epoch store_ok (snd (write_epoch store_ok s)))).
            d_Timestamp d = ts \<and> d_entity_id d = eid]
        = [d \<leftarrow> TELEMETRY (snd (write_epoch store_ok s)).
            d_Timestamp d = ts \<and> d_entity_id d = eid])"
proof -
  have 1: "STREAM_STATE (snd (write_epoch store_ok s)) =
             Some (st\<lparr>st_next_epoch := st_next_epoch st + 1\<rparr>)"
    unfolding store_ok_def by (rule write_epoch_clock[OF assms])
  have 2: "STREAM_STATE (snd (write_epoch store_ok (snd (write_epoch store_ok s)))) =
             Some (st\<lparr>st_next_epoch := st_next_epoch st + 1 + 1\<rparr>)"
    using write_epoch_clock[OF 1[unfolded store_ok_def]] by (simp add: store_ok_def)
  show ?thesis using 1 2 write_epoch_keeps by simp
qed

theorem write_epoch_twice_witness:
  "STREAM_STATE example_state = Some example_clock
   \<and> existing (TELEMETRY (snd (write_epoch store_ok example_state))) 1200 ''T2''
   \<and> map_option st_next_epoch (STREAM_STATE (snd (write_epoch store_ok example_state)))
        = Some (st_next_epoch example_clock + 1)
   \<and> map_option st_next_epoch
        (STREAM_STATE (snd (write_epoch store_ok (snd (write_epoch store_ok example_state)))))
        = Some (st_next_epoch example_clock + 2)
   \<and> [d \<leftarrow> TELEMETRY (snd (write_epoch store_ok (snd (write_epoch store_ok example_state)))).
         d_Timestamp d = 1200 \<and> d_entity_id d = ''T2'']
      = [d \<leftarrow> TELEMETRY (snd (write_epoch store_ok example_state)).
         d_Timestamp d = 1200 \<and> d_entity_id d = ''T2'']"
proof -
  have h1: "STREAM_STATE example_state = Some example_clock" by (simp add: example_state_def)
  have h2: "existing (TELEMETRY (snd (write_epoch store_ok example_state))) 1200 ''T2''"
    by code_simp
  from write_epoch_twice[OF h1, of 1200 "''T2''"] h1 h2 show ?thesis by blast
qed




text \<open>
  C5. The claim: for a failure-active entity the cursor moves by one exactly when a
  failure row was emitted for the epoch, and so stops once the series is exhausted,
  under the single-step writer and under the bulk writer. The code on the fleet whose
  engine series ends at offset 2, \<open>T1\<close> active with cursor 0, over three epochs: the bulk
  writer emits the two rows the series has and moves the cursor by 3 (its advance is
  computed from the epochs alone); three single steps emit the same two rows and move
  the cursor by 2.
\<close>

theorem fast_forward_cursor_passes_end_of_series:
  "map d_Timestamp (rows_of ''T1'' (snd (fast_forward store_ok 1 short_seed_state))) = [1200, 2400]
   \<and> map fc_failure_next_epoch (FAILURE_CONFIG (snd (fast_forward store_ok 1 short_seed_state)))
        = [Some 3]
   \<and> map d_Timestamp (rows_of ''T1'' (write_epochs store_ok 3 short_seed_state)) = [1200, 2400]
   \<and> map fc_failure_next_epoch (FAILURE_CONFIG (write_epochs store_ok 3 short_seed_state))
        = [Some 2]"
  by code_simp

text \<open>
  C6. The claim: of two concurrent triggers exactly one runs the refresh and the other
  returns as already in progress, the two tests and the two assignments being one
  atomic step under the lock. In the code the two tests come before
  \<^verbatim>\<open>with refresh_lock\<close>. Two threads that enter at the same time and are scheduled so
  that both run the tests before either takes the lock both stand at the lock entry
  after four steps, and at the end of the schedule both have run the refresh to
  completion, one after the other.
\<close>

theorem concurrent_triggers_both_refresh:
  "map t_pc (sys_threads (run_schedule store_ok (take 4 race_schedule) two_triggers))
     = [Acquire_lock, Acquire_lock]
   \<and> map t_pc (sys_threads (run_schedule store_ok race_schedule two_triggers))
     = [Completed, Completed]"
  by code_simp

text \<open>
  C7. The claim: a recorded marker is never overwritten by a refresh, and it is deleted
  exactly when its entity is no longer predicted to have a non-normal failure. The code
  on the fleet where \<open>T1\<close> has a marker and is predicted normal again: after the refresh
  the cached prediction of \<open>T1\<close> is \<^verbatim>\<open>NORMAL\<close> and the marker is still there. The
  \<^verbatim>\<open>DELETE\<close> is sent without its table names substituted and never executes; with the
  names substituted it would remove the marker.
\<close>

theorem cleared_marker_survives_refresh:
  "map p_PREDICTED_FAILURE_TYPE (PREDICTION_CACHE (trigger_refresh_sync store_ok 100 cleared_state))
     = [''NORMAL'']
   \<and> FIRST_FAILURE_MARKERS (trigger_refresh_sync store_ok 100 cleared_state) = [T1_marker]
   \<and> FIRST_FAILURE_MARKERS
        (delete_cleared_markers (trigger_refresh_sync store_ok 100 cleared_state)) = []"
  by code_simp

text \<open>
  C8. The claim: every mutating operation resets the timestamp of the read caches it
  affects. The code on the fleet whose telemetry and failures caches were filled at time
  100: \<open>clear_failures\<close> empties \<^verbatim>\<open>FAILURE_CONFIG\<close> and leaves the failures cache as it
  was; \<open>fast_forward\<close> writes three epochs and leaves the telemetry cache as it was;
  \<open>reset_all_data\<close> empties the tables and leaves both caches as they were. The
  single-step writer does reset the telemetry cache.
\<close>

theorem mutations_leave_caches_valid:
  "FAILURE_CONFIG (snd (clear_failures store_ok cached_state)) = []
   \<and> failures_cache (snd (clear_failures store_ok cached_state))
        = \<lparr>data = Some ''T1 ENGINE'', timestamp = 100\<rparr>
   \<and> fst (fast_forward store_ok 1 cached_state) = Success_epochs_inserted 3
   \<and> telemetry_cache (snd (fast_forward store_ok 1 cached_state))
        = \<lparr>data = Some ''telemetry'', timestamp = 100\<rparr>
   \<and> TELEMETRY (snd (reset_all_data store_ok 500 cached_state)) = []
   \<and> FAILURE_CONFIG (snd (reset_all_data store_ok 500 cached_state)) = []
   \<and> telemetry_cache (snd (reset_all_data store_ok 500 cached_state))
        = \<lparr>data = Some ''telemetry'', timestamp = 100\<rparr>
   \<and> failures_cache (snd (reset_all_data store_ok 500 cached_state))
        = \<lparr>data = Some ''T1 ENGINE'', timestamp = 100\<rparr>
   \<and> timestamp (telemetry_cache (snd (write_epoch store_ok cached_state))) = 0"
  by code_simp






end
